theory Spec2Isabelle
  imports Main "HOL-Library.AList" "HOL-Library.Product_Lexorder"
begin

section \<open>The core app of the school-management system\<close>

text \<open>
  The models of \<^verbatim>\<open>apps/core/models.py\<close> are Django model classes. An object of
  such a class lives in two places: as a Python object in memory and as a row of a
  table. Both are explicit here. A method of the source takes the current time, the
  object and the table of its class, and returns what the call returned (or the
  exception it raised), the object after the call and the table after the call. The
  current time is the same wherever one call reads it.
\<close>

subsection \<open>Values\<close>

text \<open>
  A calendar date is (year, month, day), ordered lexicographically as Python's
  \<^verbatim>\<open>date\<close> is; a point in time is a date and the microsecond of that day. A
  primary key is the integer value of the UUID, a user is referred to by its key.
\<close>

type_synonym date = "nat \<times> nat \<times> nat"
type_synonym datetime = "date \<times> nat"
type_synonym uuid = nat
type_synonym user_id = nat

definition year :: "datetime \<Rightarrow> nat" where
  "year t = fst (fst t)"

datatype error = DoesNotExist | IntegrityError | NotFoundError

text \<open>A table: the rows of one model class under their primary keys.\<close>

type_synonym 'a table = "(uuid \<times> 'a) list"

text \<open>
  The result of a method call: the value returned or the exception raised, the object
  after the call, the table after the call.
\<close>

type_synonym ('r, 'a) outcome = "(error + 'r) \<times> 'a \<times> 'a table"

subsection \<open>The abstract base models\<close>

datatype Status = ACTIVE | INACTIVE | PENDING | SUSPENDED | ARCHIVED

text \<open>
  \<^verbatim>\<open>CoreBaseModel\<close> combines \<^verbatim>\<open>TimeStampedModel\<close>, \<^verbatim>\<open>UUIDModel\<close>, \<^verbatim>\<open>StatusModel\<close>
  and \<^verbatim>\<open>SoftDeleteModel\<close>. The UUID primary key \<^verbatim>\<open>id\<close> is the field \<open>pk\<close>, which
  is how the source reads it (\<^verbatim>\<open>self.pk\<close>); \<open>adding\<close> is \<^verbatim>\<open>self._state.adding\<close>,
  true of an object that has not been written to or read from the table. The three
  automatic timestamps are \<^verbatim>\<open>None\<close> until the first save.
\<close>

record CoreBaseModel =
  pk :: uuid
  adding :: bool
  created_at :: "datetime option"
  updated_at :: "datetime option"
  status :: Status
  status_changed_at :: "datetime option"
  is_deleted :: bool
  deleted_at :: "datetime option"

subsection \<open>The object manager and \<^verbatim>\<open>Model.save\<close>\<close>

text \<open>
  \<^verbatim>\<open>objects.get(pk=...)\<close> returns the row with the key, or raises \<^verbatim>\<open>DoesNotExist\<close>.
\<close>

definition objects_get :: "'a table \<Rightarrow> uuid \<Rightarrow> error + 'a" where
  "objects_get tbl k = (case map_of tbl k of None \<Rightarrow> Inl DoesNotExist | Some r \<Rightarrow> Inr r)"

text \<open>
  \<^verbatim>\<open>objects.filter(...).update(...)\<close> rewrites every row that matches, in the table
  only; it does not go through \<^verbatim>\<open>save\<close>.
\<close>

definition objects_filter_update :: "('a \<Rightarrow> bool) \<Rightarrow> ('a \<Rightarrow> 'a) \<Rightarrow> 'a table \<Rightarrow> 'a table" where
  "objects_filter_update P f tbl = map (\<lambda>(k, r). (k, if P r then f r else r)) tbl"

text \<open>
  \<^verbatim>\<open>Model.save\<close> is the framework's, not the repository's. What the models of this
  file rely on: the fields declared \<^verbatim>\<open>auto_now\<close> (\<open>updated_at\<close>) are set to the current
  time, those declared \<^verbatim>\<open>auto_now_add\<close> (\<open>created_at\<close>, \<open>status_changed_at\<close>) are set
  when the row is inserted; an object that is being added is inserted, and the insert
  is refused when its key is taken; any other object replaces the row under its key
  (or is inserted when there is none). The database refuses a row that breaks a
  constraint the model declares (the parameter \<open>constraints\<close>) with
  \<^verbatim>\<open>IntegrityError\<close>, and then the table is as it was. After a successful save the
  object is no longer \<open>adding\<close>.
\<close>

definition Model_save ::
  "('a CoreBaseModel_scheme \<Rightarrow> 'a CoreBaseModel_scheme table \<Rightarrow> bool) \<Rightarrow> datetime \<Rightarrow>
   'a CoreBaseModel_scheme \<Rightarrow> 'a CoreBaseModel_scheme table \<Rightarrow>
   (unit, 'a CoreBaseModel_scheme) outcome" where
  "Model_save constraints now self tbl =
     (let inserting = adding self \<or> map_of tbl (pk self) = None;
          self1 = self\<lparr>updated_at := Some now\<rparr>;
          self2 = (if inserting then self1\<lparr>created_at := Some now, status_changed_at := Some now\<rparr>
                   else self1)
      in if adding self \<and> map_of tbl (pk self) \<noteq> None then (Inl IntegrityError, self2, tbl)
         else if \<not> constraints self2 tbl then (Inl IntegrityError, self2, tbl)
         else (Inr (), self2\<lparr>adding := False\<rparr>,
               AList.update (pk self) (self2\<lparr>adding := False\<rparr>) tbl))"

text \<open>
  \<^verbatim>\<open>StatusModel.save\<close>: for an object that is not being added, the stored row is read
  first (\<^verbatim>\<open>DoesNotExist\<close> when it is gone) and \<open>status_changed_at\<close> is set when the
  status differs from the stored one. The UUID key always has a value, so
  \<^verbatim>\<open>self.pk\<close> is true.
\<close>

definition StatusModel_save ::
  "('a CoreBaseModel_scheme \<Rightarrow> 'a CoreBaseModel_scheme table \<Rightarrow> bool) \<Rightarrow> datetime \<Rightarrow>
   'a CoreBaseModel_scheme \<Rightarrow> 'a CoreBaseModel_scheme table \<Rightarrow>
   (unit, 'a CoreBaseModel_scheme) outcome" where
  "StatusModel_save constraints now self tbl =
     (if \<not> adding self then
        (case objects_get tbl (pk self) of
           Inl e \<Rightarrow> (Inl e, self, tbl)
         | Inr original \<Rightarrow>
             Model_save constraints now
               (if status original \<noteq> status self then self\<lparr>status_changed_at := Some now\<rparr>
                else self) tbl)
      else Model_save constraints now self tbl)"

subsection \<open>Python's \<^verbatim>\<open>str\<close> of an integer and \<^verbatim>\<open>str.zfill\<close>\<close>

definition digit_char :: "nat \<Rightarrow> char" where
  "digit_char d = ''0123456789'' ! d"

fun str :: "nat \<Rightarrow> string" where
  "str n = (if n < 10 then [digit_char n] else str (n div 10) @ [digit_char (n mod 10)])"

declare str.simps [simp del]

text \<open>
  \<^verbatim>\<open>s.zfill(width)\<close>: a string of at least the width is returned as it is; a shorter
  one is filled with zeros on the left, after a leading sign if there is one.
\<close>

definition zfill :: "string \<Rightarrow> nat \<Rightarrow> string" where
  "zfill s width =
     (if width \<le> length s then s
      else (case s of
              [] \<Rightarrow> replicate width (CHR ''0'')
            | c # cs \<Rightarrow>
                if c = CHR ''+'' \<or> c = CHR ''-''
                then c # replicate (width - length s) (CHR ''0'') @ cs
                else replicate (width - length s) (CHR ''0'') @ s))"

subsection \<open>Sequence generators\<close>

datatype SequenceType = STUDENT_ID | EMPLOYEE_ID | INVOICE | RECEIPT | LIBRARY_BOOK | TRANSPORT_BUS

datatype ResetFrequency = Never | Yearly | Monthly | Daily

text \<open>
  \<open>last_number\<close> and \<open>padding\<close> are \<^verbatim>\<open>PositiveIntegerField\<close>s: integers from 0.
  The largest value such a field can store depends on the database and is left out.
  The validators of \<open>padding\<close> (1 to 10) run when an object is validated, not when it
  is saved.
\<close>

record SequenceGenerator = CoreBaseModel +
  sequence_type :: SequenceType
  prefix :: string
  suffix :: string
  last_number :: nat
  padding :: nat
  reset_frequency :: ResetFrequency

text \<open>The table constraint the model declares: \<open>sequence_type\<close> is unique.\<close>

definition SequenceGenerator_constraints ::
  "SequenceGenerator \<Rightarrow> SequenceGenerator table \<Rightarrow> bool" where
  "SequenceGenerator_constraints self tbl =
     list_all (\<lambda>(k, r). k = pk self \<or> sequence_type r \<noteq> sequence_type self) tbl"

definition SequenceGenerator_save ::
  "datetime \<Rightarrow> SequenceGenerator \<Rightarrow> SequenceGenerator table \<Rightarrow> (unit, SequenceGenerator) outcome" where
  "SequenceGenerator_save = StatusModel_save SequenceGenerator_constraints"

definition get_next_number ::
  "datetime \<Rightarrow> SequenceGenerator \<Rightarrow> SequenceGenerator table \<Rightarrow> (string, SequenceGenerator) outcome" where
  "get_next_number now self tbl =
     (case SequenceGenerator_save now (self\<lparr>last_number := last_number self + 1\<rparr>) tbl of
        (Inl e, self', tbl') \<Rightarrow> (Inl e, self', tbl')
      | (Inr _, self', tbl') \<Rightarrow>
          (let number_str = zfill (str (last_number self')) (padding self')
           in (Inr (prefix self' @ number_str @ suffix self'), self', tbl')))"

text \<open>
  \<^verbatim>\<open>__str__\<close> shows the type and the last number; the type is shown by its stored
  value.
\<close>

fun SequenceType_value :: "SequenceType \<Rightarrow> string" where
  "SequenceType_value STUDENT_ID = ''student_id''"
| "SequenceType_value EMPLOYEE_ID = ''employee_id''"
| "SequenceType_value INVOICE = ''invoice''"
| "SequenceType_value RECEIPT = ''receipt''"
| "SequenceType_value LIBRARY_BOOK = ''library_book''"
| "SequenceType_value TRANSPORT_BUS = ''transport_bus''"

definition SequenceGenerator_str ::
  "SequenceGenerator \<Rightarrow> SequenceGenerator table \<Rightarrow> (string, SequenceGenerator) outcome" where
  "SequenceGenerator_str self tbl =
     (Inr (SequenceType_value (sequence_type self) @ '' - Last: '' @ str (last_number self)),
      self, tbl)"

text \<open>Reading the attribute \<^verbatim>\<open>self.last_number\<close>, as a call like the others.\<close>

definition read_last_number ::
  "SequenceGenerator \<Rightarrow> SequenceGenerator table \<Rightarrow> (nat, SequenceGenerator) outcome" where
  "read_last_number self tbl = (Inr (last_number self), self, tbl)"

text \<open>
  A caller that calls \<^verbatim>\<open>get_next_number\<close> on one object again and again, once at each
  of the given times, and keeps what each call returned or raised.
\<close>

fun get_next_numbers ::
  "datetime list \<Rightarrow> SequenceGenerator \<Rightarrow> SequenceGenerator table \<Rightarrow> (error + string) list" where
  "get_next_numbers [] self tbl = []"
| "get_next_numbers (now # nows) self tbl =
     (case get_next_number now self tbl of
        (r, self', tbl') \<Rightarrow> r # get_next_numbers nows self' tbl')"

fun successes :: "(error + 'r) list \<Rightarrow> 'r list" where
  "successes [] = []"
| "successes (Inl e # rs) = successes rs"
| "successes (Inr x # rs) = x # successes rs"

text \<open>
  The numeric portion of a formatted number is what is left of it without the prefix
  and the suffix of its generator; its numeric component is the number that Python's
  \<^verbatim>\<open>int\<close> reads there.
\<close>

definition digit_value :: "char \<Rightarrow> nat" where
  "digit_value c = of_char c - 48"

definition int_of_digits :: "string \<Rightarrow> nat" where
  "int_of_digits s = foldl (\<lambda>a c. 10 * a + digit_value c) 0 s"

definition numeric_portion :: "SequenceGenerator \<Rightarrow> string \<Rightarrow> string" where
  "numeric_portion self s =
     take (length s - length (prefix self) - length (suffix self)) (drop (length (prefix self)) s)"

definition numeric_component :: "SequenceGenerator \<Rightarrow> string \<Rightarrow> nat" where
  "numeric_component self s = int_of_digits (numeric_portion self s)"

text \<open>
  Modelled from the spec: the operation \<^verbatim>\<open>allocate(kind)\<close> of the specification. The
  source has the method \<^verbatim>\<open>get_next_number\<close> of a generator and no function that
  finds the generator of a kind. Following the specification, \<open>allocate\<close> looks for
  the row of the kind, fails with \<^verbatim>\<open>NotFoundError\<close> when there is none, and otherwise
  takes the next number of that row.
\<close>

definition allocate ::
  "datetime \<Rightarrow> SequenceType \<Rightarrow> SequenceGenerator table \<Rightarrow> (error + string) \<times> SequenceGenerator table" where
  "allocate now kind tbl =
     (case find (\<lambda>(k, r). sequence_type r = kind) tbl of
        None \<Rightarrow> (Inl NotFoundError, tbl)
      | Some (k, self) \<Rightarrow>
          (case get_next_number now self tbl of (r, self', tbl') \<Rightarrow> (r, tbl')))"

subsection \<open>Soft deletion\<close>

text \<open>
  \<^verbatim>\<open>SoftDeleteModel.delete\<close> and \<^verbatim>\<open>restore\<close> set the two deletion fields and call
  \<^verbatim>\<open>self.save()\<close>, which is the \<^verbatim>\<open>save\<close> of the object's own class: the parameter
  \<open>save\<close>.
\<close>

definition SoftDeleteModel_delete ::
  "(datetime \<Rightarrow> 'a CoreBaseModel_scheme \<Rightarrow> 'a CoreBaseModel_scheme table \<Rightarrow>
     (unit, 'a CoreBaseModel_scheme) outcome) \<Rightarrow>
   datetime \<Rightarrow> 'a CoreBaseModel_scheme \<Rightarrow> 'a CoreBaseModel_scheme table \<Rightarrow>
   (unit, 'a CoreBaseModel_scheme) outcome" where
  "SoftDeleteModel_delete save now self tbl =
     save now (self\<lparr>is_deleted := True, deleted_at := Some now\<rparr>) tbl"

definition SoftDeleteModel_restore ::
  "(datetime \<Rightarrow> 'a CoreBaseModel_scheme \<Rightarrow> 'a CoreBaseModel_scheme table \<Rightarrow>
     (unit, 'a CoreBaseModel_scheme) outcome) \<Rightarrow>
   datetime \<Rightarrow> 'a CoreBaseModel_scheme \<Rightarrow> 'a CoreBaseModel_scheme table \<Rightarrow>
   (unit, 'a CoreBaseModel_scheme) outcome" where
  "SoftDeleteModel_restore save now self tbl =
     save now (self\<lparr>is_deleted := False, deleted_at := None\<rparr>) tbl"

subsection \<open>Notifications\<close>

datatype NotificationType = INFO | SUCCESS | WARNING | ERROR | ALERT

datatype Priority = LOW | MEDIUM | HIGH | URGENT

record Notification = CoreBaseModel +
  user :: user_id
  title :: string
  message :: string
  notification_type :: NotificationType
  priority :: Priority
  is_read :: bool
  read_at :: "datetime option"
  action_url :: string
  related_model :: string
  related_object_id :: string
  expires_at :: "datetime option"

text \<open>The model declares indexes and no constraint of its own table.\<close>

definition Notification_constraints :: "Notification \<Rightarrow> Notification table \<Rightarrow> bool" where
  "Notification_constraints self tbl = True"

definition Notification_save ::
  "datetime \<Rightarrow> Notification \<Rightarrow> Notification table \<Rightarrow> (unit, Notification) outcome" where
  "Notification_save = StatusModel_save Notification_constraints"

definition mark_as_read ::
  "datetime \<Rightarrow> Notification \<Rightarrow> Notification table \<Rightarrow> (unit, Notification) outcome" where
  "mark_as_read now self tbl =
     Notification_save now (self\<lparr>is_read := True, read_at := Some now\<rparr>) tbl"

subsection \<open>Academic sessions\<close>

record AcademicSession = CoreBaseModel +
  name :: string
  number_of_semesters :: nat
  term_number :: "nat option"
  start_date :: date
  end_date :: date
  is_current :: bool

text \<open>
  The two check constraints of the model: the end date is after the start date, and
  the term number is null or at most the number of semesters.
\<close>

definition AcademicSession_constraints :: "AcademicSession \<Rightarrow> AcademicSession table \<Rightarrow> bool" where
  "AcademicSession_constraints self tbl =
     (start_date self < end_date self \<and>
      (case term_number self of None \<Rightarrow> True | Some t \<Rightarrow> t \<le> number_of_semesters self))"

definition AcademicSession_save ::
  "datetime \<Rightarrow> AcademicSession \<Rightarrow> AcademicSession table \<Rightarrow> (unit, AcademicSession) outcome" where
  "AcademicSession_save now self tbl =
     (let tbl1 = (if is_current self
                  then objects_filter_update is_current (\<lambda>r. r\<lparr>is_current := False\<rparr>) tbl
                  else tbl)
      in StatusModel_save AcademicSession_constraints now self tbl1)"

text \<open>The keys of the sessions that the table marks as current.\<close>

definition current_sessions :: "AcademicSession table \<Rightarrow> uuid list" where
  "current_sessions tbl = map fst (filter (\<lambda>(k, r). is_current r) tbl)"

text \<open>
  A caller that saves one session object after another, each at its time, whatever
  each save returns or raises.
\<close>

fun save_all :: "(datetime \<times> AcademicSession) list \<Rightarrow> AcademicSession table \<Rightarrow> AcademicSession table" where
  "save_all [] tbl = tbl"
| "save_all ((now, self) # calls) tbl = save_all calls (snd (snd (AcademicSession_save now self tbl)))"

subsection \<open>Sample objects\<close>

text \<open>
  Three points in time, the first in 2024 and the others in 2025, and a generator of
  student numbers as it is stored: saved at the first of them, with the given key,
  prefix, last number, padding and reset frequency, and no suffix.
\<close>

definition t0 :: datetime where "t0 = ((2024, 9, 1), 0)"
definition t1 :: datetime where "t1 = ((2025, 1, 15), 0)"
definition t2 :: datetime where "t2 = ((2025, 1, 15), 1)"

definition stored_generator :: "uuid \<Rightarrow> string \<Rightarrow> nat \<Rightarrow> nat \<Rightarrow> ResetFrequency \<Rightarrow> SequenceGenerator" where
  "stored_generator k p n w f =
     \<lparr>pk = k, adding = False, created_at = Some t0, updated_at = Some t0, status = ACTIVE,
      status_changed_at = Some t0, is_deleted = False, deleted_at = None,
      sequence_type = STUDENT_ID, prefix = p, suffix = [], last_number = n, padding = w,
      reset_frequency = f\<rparr>"

text \<open>
  A stored notification, unread, and a stored academic session with the given key and
  current flag.
\<close>

definition stored_notification :: "uuid \<Rightarrow> Notification" where
  "stored_notification k =
     \<lparr>pk = k, adding = False, created_at = Some t0, updated_at = Some t0, status = ACTIVE,
      status_changed_at = Some t0, is_deleted = False, deleted_at = None,
      user = 3, title = ''Fees'', message = ''Fees are due'', notification_type = INFO,
      priority = MEDIUM, is_read = False, read_at = None, action_url = [],
      related_model = [], related_object_id = [], expires_at = None\<rparr>"

definition stored_session :: "uuid \<Rightarrow> bool \<Rightarrow> AcademicSession" where
  "stored_session k cur =
     \<lparr>pk = k, adding = False, created_at = Some t0, updated_at = Some t0, status = ACTIVE,
      status_changed_at = Some t0, is_deleted = False, deleted_at = None,
      name = ''2024/2025'', number_of_semesters = 2, term_number = None,
      start_date = (2024, 9, 1), end_date = (2025, 6, 30), is_current = cur\<rparr>"

section \<open>Properties\<close>

subsection \<open>What a save does to the object and to the table\<close>

lemma Model_save_object:
  "Model_save c now self tbl = (r, self', tbl') \<Longrightarrow>
   self' = self\<lparr>adding := adding self', created_at := created_at self', updated_at := Some now,
                status_changed_at := status_changed_at self'\<rparr>"
  unfolding Model_save_def Let_def
  by (auto split: if_splits)

lemma Model_save_Inr:
  "Model_save c now self tbl = (Inr u, self', tbl') \<Longrightarrow>
   tbl' = AList.update (pk self) self' tbl \<and> \<not> adding self' \<and> updated_at self' = Some now \<and>
   (adding self \<longrightarrow> map_of tbl (pk self) = None)"
  unfolding Model_save_def Let_def
  by (auto split: if_splits)

lemma Model_save_Inl:
  "Model_save c now self tbl = (Inl e, self', tbl') \<Longrightarrow> tbl' = tbl \<and> e = IntegrityError"
  unfolding Model_save_def Let_def
  by (auto split: if_splits)

lemma StatusModel_save_object:
  "StatusModel_save c now self tbl = (r, self', tbl') \<Longrightarrow>
   self' = self\<lparr>adding := adding self', created_at := created_at self',
                updated_at := updated_at self', status_changed_at := status_changed_at self'\<rparr>"
  unfolding StatusModel_save_def Model_save_def Let_def
  by (auto split: if_splits sum.splits)

lemma StatusModel_save_Inr:
  "StatusModel_save c now self tbl = (Inr u, self', tbl') \<Longrightarrow>
   tbl' = AList.update (pk self) self' tbl \<and> \<not> adding self' \<and> updated_at self' = Some now
   \<and> (adding self \<longleftrightarrow> map_of tbl (pk self) = None)"
  unfolding StatusModel_save_def objects_get_def
  by (auto split: if_splits sum.splits option.splits dest: Model_save_Inr Model_save_object)

lemma StatusModel_save_Inl:
  "StatusModel_save c now self tbl = (Inl e, self', tbl') \<Longrightarrow> tbl' = tbl"
  unfolding StatusModel_save_def
  by (auto split: if_splits sum.splits dest: Model_save_Inl)

subsection \<open>Decimal strings and padding\<close>

lemma digit_value_digit_char: "d < 10 \<Longrightarrow> digit_value (digit_char d) = d"
proof -
  assume "d < 10"
  then have "d \<in> {0,1,2,3,4,5,6,7,8,9}" by auto
  then show ?thesis
    by (auto simp: digit_value_def digit_char_def)
qed

lemma digit_char_not_sign: "d < 10 \<Longrightarrow> digit_char d \<noteq> CHR ''+'' \<and> digit_char d \<noteq> CHR ''-''"
proof -
  assume "d < 10"
  then have "d \<in> {0,1,2,3,4,5,6,7,8,9}" by auto
  then show ?thesis
    by (auto simp: digit_char_def)
qed

lemma int_of_digits_snoc: "int_of_digits (s @ [c]) = 10 * int_of_digits s + digit_value c"
  by (simp add: int_of_digits_def)

lemma int_of_digits_str: "int_of_digits (str n) = n"
proof (induction n rule: str.induct)
  case (1 n)
  show ?case
  proof (cases "n < 10")
    case True
    then show ?thesis
      by (subst str.simps) (simp add: int_of_digits_def digit_value_digit_char)
  next
    case False
    with 1 have "int_of_digits (str (n div 10)) = n div 10" by simp
    with False show ?thesis
      by (subst str.simps) (simp add: int_of_digits_snoc digit_value_digit_char)
  qed
qed

lemma str_hd: "\<exists>c cs. str n = c # cs \<and> c \<noteq> CHR ''+'' \<and> c \<noteq> CHR ''-''"
proof (induction n rule: str.induct)
  case (1 n)
  show ?case
  proof (cases "n < 10")
    case True
    then show ?thesis
      by (subst str.simps) (simp add: digit_char_not_sign)
  next
    case False
    with 1 obtain c cs where "str (n div 10) = c # cs" "c \<noteq> CHR ''+''" "c \<noteq> CHR ''-''" by blast
    with False show ?thesis
      by (subst str.simps) simp
  qed
qed

lemma zfill_str: "zfill (str n) w = replicate (w - length (str n)) (CHR ''0'') @ str n"
proof -
  obtain c cs where "str n = c # cs" "c \<noteq> CHR ''+''" "c \<noteq> CHR ''-''"
    using str_hd by blast
  then show ?thesis
    by (simp add: zfill_def)
qed

lemma foldl_zeros: "foldl (\<lambda>a c. 10 * a + digit_value c) 0 (replicate k (CHR ''0'')) = 0"
  by (induction k) (simp_all add: digit_value_def)

lemma int_of_digits_zfill: "int_of_digits (zfill (str n) w) = n"
proof -
  have "int_of_digits (replicate (w - length (str n)) (CHR ''0'') @ str n) = int_of_digits (str n)"
    by (simp add: int_of_digits_def foldl_zeros)
  then show ?thesis
    by (simp add: zfill_str int_of_digits_str)
qed

lemma numeric_portion_format:
  "prefix self' = prefix self \<Longrightarrow> suffix self' = suffix self \<Longrightarrow>
   numeric_portion self' (prefix self @ x @ suffix self) = x"
  by (simp add: numeric_portion_def)


subsection \<open>The next number of a generator\<close>

lemma get_next_number_Inr:
  assumes "get_next_number now self tbl = (Inr s, self', tbl')"
  shows "SequenceGenerator_save now (self\<lparr>last_number := last_number self + 1\<rparr>) tbl = (Inr (), self', tbl')"
    and "s = prefix self' @ zfill (str (last_number self')) (padding self') @ suffix self'"
  using assms unfolding get_next_number_def
  by (auto split: prod.splits sum.splits simp: Let_def)

lemma get_next_number_Inl:
  assumes "get_next_number now self tbl = (Inl e, self', tbl')"
  shows "SequenceGenerator_save now (self\<lparr>last_number := last_number self + 1\<rparr>) tbl = (Inl e, self', tbl')"
  using assms unfolding get_next_number_def
  by (auto split: prod.splits sum.splits simp: Let_def)

lemma get_next_number_object:
  assumes "get_next_number now self tbl = (r, self', tbl')"
  shows "self' = self\<lparr>last_number := last_number self + 1, adding := adding self',
                created_at := created_at self', updated_at := updated_at self',
                status_changed_at := status_changed_at self'\<rparr>"
proof -
  obtain u where "SequenceGenerator_save now (self\<lparr>last_number := last_number self + 1\<rparr>) tbl = (u, self', tbl')"
    using assms unfolding get_next_number_def
    by (auto split: prod.splits sum.splits simp: Let_def)
  from StatusModel_save_object [OF this [unfolded SequenceGenerator_save_def]]
  show ?thesis by simp
qed

lemma get_next_number_fields:
  assumes "get_next_number now self tbl = (r, self', tbl')"
  shows "last_number self' = last_number self + 1" "prefix self' = prefix self"
    "suffix self' = suffix self" "padding self' = padding self" "pk self' = pk self"
    "sequence_type self' = sequence_type self" "reset_frequency self' = reset_frequency self"
  by (subst get_next_number_object [OF assms], simp)+

lemma numeric_component_cong:
  "prefix a = prefix b \<Longrightarrow> suffix a = suffix b \<Longrightarrow> numeric_component a s = numeric_component b s"
  by (simp add: numeric_component_def numeric_portion_def)

lemma get_next_number_component:
  assumes "get_next_number now self tbl = (Inr s, self', tbl')"
  shows "numeric_portion self s = zfill (str (last_number self + 1)) (padding self)"
    and "numeric_component self s = last_number self + 1"
proof -
  note f = get_next_number_fields [OF assms]
  from get_next_number_Inr(2) [OF assms]
  have s: "s = prefix self @ zfill (str (last_number self + 1)) (padding self) @ suffix self"
    by (simp add: f)
  show "numeric_portion self s = zfill (str (last_number self + 1)) (padding self)"
    by (subst s) (rule numeric_portion_format, simp_all)
  then show "numeric_component self s = last_number self + 1"
    by (simp add: numeric_component_def int_of_digits_zfill)
qed

lemma get_next_numbers_above:
  "x \<in> set (successes (get_next_numbers nows self tbl)) \<Longrightarrow> last_number self < numeric_component self x"
proof (induction nows arbitrary: self tbl x)
  case Nil
  then show ?case by simp
next
  case (Cons now nows)
  obtain r self' tbl' where g: "get_next_number now self tbl = (r, self', tbl')"
    by (cases "get_next_number now self tbl") auto
  note f = get_next_number_fields [OF g]
  have later: "last_number self < numeric_component self y"
    if "y \<in> set (successes (get_next_numbers nows self' tbl'))" for y
  proof -
    from Cons.IH [OF that] have "last_number self' < numeric_component self' y" .
    moreover have "numeric_component self' y = numeric_component self y"
      by (rule numeric_component_cong) (simp_all add: f)
    ultimately show ?thesis by (simp add: f)
  qed
  show ?case
  proof (cases r)
    case (Inl e)
    with Cons.prems g show ?thesis by (auto intro: later)
  next
    case (Inr s)
    with g have "numeric_component self s = last_number self + 1"
      by (simp add: get_next_number_component)
    with Cons.prems g Inr show ?thesis by (auto intro: later)
  qed
qed

lemma get_next_numbers_increasing:
  "sorted_wrt (<) (map (numeric_component self) (successes (get_next_numbers nows self tbl)))"
proof (induction nows arbitrary: self tbl)
  case Nil
  then show ?case by simp
next
  case (Cons now nows)
  obtain r self' tbl' where g: "get_next_number now self tbl = (r, self', tbl')"
    by (cases "get_next_number now self tbl") auto
  note f = get_next_number_fields [OF g]
  have same: "numeric_component self' = numeric_component self"
    by (rule ext, rule numeric_component_cong) (simp_all add: f)
  from Cons.IH [of self' tbl']
  have rest: "sorted_wrt (<) (map (numeric_component self) (successes (get_next_numbers nows self' tbl')))"
    by (simp add: same)
  show ?case
  proof (cases r)
    case (Inl e)
    with g rest show ?thesis by simp
  next
    case (Inr s)
    with g have c: "numeric_component self s = last_number self + 1"
      by (simp add: get_next_number_component)
    have "numeric_component self s < numeric_component self y"
      if "y \<in> set (successes (get_next_numbers nows self' tbl'))" for y
      using get_next_numbers_above [OF that] by (simp add: same c f)
    with g rest Inr show ?thesis by simp
  qed
qed

text \<open>
  C1 (as amended). For one generator object on which \<^verbatim>\<open>get_next_number\<close> is called
  again and again, each call seeing the object as the call before left it: the numeric
  components of the numbers returned by the successful calls are strictly increasing,
  and the formatted strings returned are pairwise distinct. No reset is involved: the
  method has none.
\<close>

theorem get_next_numbers_increasing_distinct:
  "sorted_wrt (<) (map (numeric_component self) (successes (get_next_numbers nows self tbl))) \<and>
   distinct (successes (get_next_numbers nows self tbl))"
proof -
  let ?ss = "successes (get_next_numbers nows self tbl)"
  have inc: "sorted_wrt (<) (map (numeric_component self) ?ss)"
    by (rule get_next_numbers_increasing)
  then have "distinct (map (numeric_component self) ?ss)"
    by (simp add: strict_sorted_iff)
  then have "distinct ?ss"
    by (simp add: distinct_map)
  with inc show ?thesis by simp
qed

text \<open>
  C1 as stated fails for the counter of a kind, which is a row: two objects read from
  the same row, one call on each, both calls successful, and both return
  \<^verbatim>\<open>000001\<close>. The second object still holds the last number it was read with; the
  method neither locks the row nor reads it again.
\<close>

theorem get_next_number_stale_object_repeats:
  "objects_get [(1, stored_generator 1 [] 0 6 Never)] 1 = Inr (stored_generator 1 [] 0 6 Never) \<and>
   fst (get_next_number t1 (stored_generator 1 [] 0 6 Never) [(1, stored_generator 1 [] 0 6 Never)])
     = Inr ''000001'' \<and>
   fst (get_next_number t2 (stored_generator 1 [] 0 6 Never)
          (snd (snd (get_next_number t1 (stored_generator 1 [] 0 6 Never)
                       [(1, stored_generator 1 [] 0 6 Never)]))))
     = Inr ''000001''"
  by code_simp

lemma get_next_number_stored:
  assumes "get_next_number now self tbl = (Inr s, self', tbl')"
  shows "map_of tbl' (pk self) = Some self'" and "objects_get tbl' (pk self) = Inr self'"
proof -
  from get_next_number_Inr(1) [OF assms]
  have "StatusModel_save SequenceGenerator_constraints now
          (self\<lparr>last_number := last_number self + 1\<rparr>) tbl = (Inr (), self', tbl')"
    by (simp add: SequenceGenerator_save_def)
  from StatusModel_save_Inr [OF this]
  have "tbl' = AList.update (pk self) self' tbl" by simp
  then show "map_of tbl' (pk self) = Some self'"
    by (simp add: update_conv')
  then show "objects_get tbl' (pk self) = Inr self'"
    by (simp add: objects_get_def)
qed

text \<open>
  C2. A successful call of \<^verbatim>\<open>get_next_number\<close> leaves the last number one higher
  than it was, returns the prefix, the new last number filled with zeros to the padding
  and the suffix, and the row stored under the key is the object as the call left it.
  In particular, with padding 6 and last number 0 the numeric portion returned is
  \<^verbatim>\<open>000001\<close>.
\<close>

theorem get_next_number_increments_and_formats:
  assumes "get_next_number now self tbl = (Inr s, self', tbl')"
  shows "last_number self' = last_number self + 1 \<and>
         s = prefix self @ zfill (str (last_number self + 1)) (padding self) @ suffix self \<and>
         objects_get tbl' (pk self) = Inr self' \<and>
         (padding self = 6 \<and> last_number self = 0 \<longrightarrow> numeric_portion self s = ''000001'')"
proof -
  note f = get_next_number_fields [OF assms]
  have "s = prefix self @ zfill (str (last_number self + 1)) (padding self) @ suffix self"
    using get_next_number_Inr(2) [OF assms] by (simp add: f)
  moreover have "numeric_portion self s = ''000001''" if "padding self = 6" "last_number self = 0"
  proof -
    have "zfill (str (0 + 1)) 6 = ''000001''" by code_simp
    with that show ?thesis
      by (simp add: get_next_number_component(1) [OF assms])
  qed
  ultimately show ?thesis
    using f(1) get_next_number_stored(2) [OF assms] by blast
qed

text \<open>A stored generator with prefix \<^verbatim>\<open>INV-\<close>, padding 6 and last number 0.\<close>

theorem get_next_number_increments_and_formats_witness:
  "get_next_number t1 (stored_generator 1 ''INV-'' 0 6 Never) [(1, stored_generator 1 ''INV-'' 0 6 Never)]
     = (Inr ''INV-000001'', (stored_generator 1 ''INV-'' 1 6 Never)\<lparr>updated_at := Some t1\<rparr>,
        [(1, (stored_generator 1 ''INV-'' 1 6 Never)\<lparr>updated_at := Some t1\<rparr>)]) \<and>
   numeric_portion (stored_generator 1 ''INV-'' 0 6 Never) ''INV-000001'' = ''000001''"
proof -
  have run: "get_next_number t1 (stored_generator 1 ''INV-'' 0 6 Never) [(1, stored_generator 1 ''INV-'' 0 6 Never)]
     = (Inr ''INV-000001'', (stored_generator 1 ''INV-'' 1 6 Never)\<lparr>updated_at := Some t1\<rparr>,
        [(1, (stored_generator 1 ''INV-'' 1 6 Never)\<lparr>updated_at := Some t1\<rparr>)])"
    by code_simp
  have h: "padding (stored_generator 1 ''INV-'' 0 6 Never) = 6 \<and>
           last_number (stored_generator 1 ''INV-'' 0 6 Never) = 0"
    by (simp add: stored_generator_def)
  from get_next_number_increments_and_formats [OF run] h
  have "numeric_portion (stored_generator 1 ''INV-'' 0 6 Never) ''INV-000001'' = ''000001''"
    by blast
  with run show ?thesis by blast
qed

text \<open>
  C3 (as amended). \<^verbatim>\<open>get_next_number\<close> reads neither the reset frequency nor the
  date. On a generator with yearly reset, last number 120 and padding 6, last saved in
  year Y, a successful call in year Y+1 does not reset: the last number becomes 121 and
  the numeric portion returned is \<^verbatim>\<open>000121\<close>.
\<close>

theorem get_next_number_ignores_reset_frequency:
  assumes "get_next_number now self tbl = (Inr s, self', tbl')"
    and "reset_frequency self = Yearly" and "last_number self = 120" and "padding self = 6"
    and "updated_at self = Some t" and "year now = year t + 1"
  shows "last_number self' = 121 \<and> numeric_portion self s = ''000121''"
proof -
  have "zfill (str (120 + 1)) 6 = ''000121''" by code_simp
  with assms(3,4) show ?thesis
    by (simp add: get_next_number_fields(1) [OF assms(1)] get_next_number_component(1) [OF assms(1)])
qed

text \<open>A generator last saved in 2024, called in 2025.\<close>

theorem get_next_number_ignores_reset_frequency_witness:
  "get_next_number t1 (stored_generator 1 [] 120 6 Yearly) [(1, stored_generator 1 [] 120 6 Yearly)]
     = (Inr ''000121'', (stored_generator 1 [] 121 6 Yearly)\<lparr>updated_at := Some t1\<rparr>,
        [(1, (stored_generator 1 [] 121 6 Yearly)\<lparr>updated_at := Some t1\<rparr>)]) \<and>
   reset_frequency (stored_generator 1 [] 120 6 Yearly) = Yearly \<and>
   last_number (stored_generator 1 [] 120 6 Yearly) = 120 \<and>
   padding (stored_generator 1 [] 120 6 Yearly) = 6 \<and>
   updated_at (stored_generator 1 [] 120 6 Yearly) = Some t0 \<and>
   year t1 = year t0 + 1 \<and>
   numeric_portion (stored_generator 1 [] 120 6 Yearly) ''000121'' = ''000121''"
proof -
  have run: "get_next_number t1 (stored_generator 1 [] 120 6 Yearly) [(1, stored_generator 1 [] 120 6 Yearly)]
     = (Inr ''000121'', (stored_generator 1 [] 121 6 Yearly)\<lparr>updated_at := Some t1\<rparr>,
        [(1, (stored_generator 1 [] 121 6 Yearly)\<lparr>updated_at := Some t1\<rparr>)])"
    by code_simp
  have h: "reset_frequency (stored_generator 1 [] 120 6 Yearly) = Yearly"
    "last_number (stored_generator 1 [] 120 6 Yearly) = 120"
    "padding (stored_generator 1 [] 120 6 Yearly) = 6"
    "updated_at (stored_generator 1 [] 120 6 Yearly) = Some t0"
    "year t1 = year t0 + 1"
    by (simp_all add: stored_generator_def year_def t0_def t1_def)
  from get_next_number_ignores_reset_frequency [OF run h] run h show ?thesis by simp
qed

text \<open>
  C3 as stated fails: the generator with yearly reset and last number 120, last saved
  in 2024 and called in 2025, returns \<^verbatim>\<open>000121\<close>, not \<^verbatim>\<open>000001\<close>.
\<close>

theorem get_next_number_yearly_no_reset:
  "reset_frequency (stored_generator 2 [] 120 6 Yearly) = Yearly \<and>
   last_number (stored_generator 2 [] 120 6 Yearly) = 120 \<and>
   updated_at (stored_generator 2 [] 120 6 Yearly) = Some t0 \<and>
   year t0 = 2024 \<and> year t2 = 2025 \<and>
   fst (get_next_number t2 (stored_generator 2 [] 120 6 Yearly) [(2, stored_generator 2 [] 120 6 Yearly)])
     = Inr ''000121'' \<and>
   numeric_portion (stored_generator 2 [] 120 6 Yearly) ''000121'' \<noteq> ''000001''"
  by code_simp

text \<open>
  C4 (as amended). On a generator with prefix \<^verbatim>\<open>STU-\<close>, no suffix, padding 4 and
  last number 5, a successful call returns \<^verbatim>\<open>STU-0006\<close>: the number is filled to
  four digits, the padding.
\<close>

theorem get_next_number_padding_four:
  assumes "get_next_number now self tbl = (Inr s, self', tbl')"
    and "prefix self = ''STU-''" and "suffix self = []" and "padding self = 4"
    and "last_number self = 5"
  shows "s = ''STU-0006''"
proof -
  note f = get_next_number_fields [OF assms(1)]
  have "zfill (str (5 + 1)) 4 = ''0006''" by code_simp
  with assms(2-) show ?thesis
    using get_next_number_Inr(2) [OF assms(1)] by (simp add: f)
qed

text \<open>The stored generator of the claim.\<close>

theorem get_next_number_padding_four_witness:
  "get_next_number t1 (stored_generator 1 ''STU-'' 5 4 Never) [(1, stored_generator 1 ''STU-'' 5 4 Never)]
     = (Inr ''STU-0006'', (stored_generator 1 ''STU-'' 6 4 Never)\<lparr>updated_at := Some t1\<rparr>,
        [(1, (stored_generator 1 ''STU-'' 6 4 Never)\<lparr>updated_at := Some t1\<rparr>)]) \<and>
   prefix (stored_generator 1 ''STU-'' 5 4 Never) = ''STU-'' \<and>
   suffix (stored_generator 1 ''STU-'' 5 4 Never) = [] \<and>
   padding (stored_generator 1 ''STU-'' 5 4 Never) = 4 \<and>
   last_number (stored_generator 1 ''STU-'' 5 4 Never) = 5"
proof -
  have run: "get_next_number t1 (stored_generator 1 ''STU-'' 5 4 Never) [(1, stored_generator 1 ''STU-'' 5 4 Never)]
     = (Inr ''STU-0006'', (stored_generator 1 ''STU-'' 6 4 Never)\<lparr>updated_at := Some t1\<rparr>,
        [(1, (stored_generator 1 ''STU-'' 6 4 Never)\<lparr>updated_at := Some t1\<rparr>)])"
    by code_simp
  have h: "prefix (stored_generator 1 ''STU-'' 5 4 Never) = ''STU-''"
    "suffix (stored_generator 1 ''STU-'' 5 4 Never) = []"
    "padding (stored_generator 1 ''STU-'' 5 4 Never) = 4"
    "last_number (stored_generator 1 ''STU-'' 5 4 Never) = 5"
    by (simp_all add: stored_generator_def)
  from get_next_number_padding_four [OF run h] run h show ?thesis by simp
qed

text \<open>
  C4 as stated fails: with padding 4 the sixth number is not \<^verbatim>\<open>STU-000006\<close>.
\<close>

theorem get_next_number_padding_four_not_six_digits:
  "prefix (stored_generator 2 ''STU-'' 5 4 Never) = ''STU-'' \<and>
   suffix (stored_generator 2 ''STU-'' 5 4 Never) = [] \<and>
   padding (stored_generator 2 ''STU-'' 5 4 Never) = 4 \<and>
   last_number (stored_generator 2 ''STU-'' 5 4 Never) = 5 \<and>
   fst (get_next_number t1 (stored_generator 2 ''STU-'' 5 4 Never) [(2, stored_generator 2 ''STU-'' 5 4 Never)])
     \<noteq> Inr ''STU-000006''"
  by code_simp

text \<open>
  C5. When the save inside \<^verbatim>\<open>get_next_number\<close> fails, the call fails with the same
  error and the table is exactly as it was before the call: the stored generator, its
  last number included, is untouched, and nothing is committed in part.
\<close>

theorem get_next_number_failed_save:
  assumes "fst (SequenceGenerator_save now (self\<lparr>last_number := last_number self + 1\<rparr>) tbl) = Inl e"
  shows "fst (get_next_number now self tbl) = Inl e \<and>
         snd (snd (get_next_number now self tbl)) = tbl"
proof -
  obtain self' tbl' where
    sv: "SequenceGenerator_save now (self\<lparr>last_number := last_number self + 1\<rparr>) tbl = (Inl e, self', tbl')"
    using assms by (cases "SequenceGenerator_save now (self\<lparr>last_number := last_number self + 1\<rparr>) tbl") auto
  then have g: "get_next_number now self tbl = (Inl e, self', tbl')"
    by (simp add: get_next_number_def)
  from sv have "tbl' = tbl"
    unfolding SequenceGenerator_save_def by (rule StatusModel_save_Inl)
  with g show ?thesis by simp
qed

text \<open>
  A new generator of student numbers, not yet saved, while the table already has one
  with last number 7: the save is refused because the sequence type is taken, and the
  table still has that one row with last number 7.
\<close>

theorem get_next_number_failed_save_witness:
  "fst (SequenceGenerator_save t1
          (((stored_generator 2 [] 0 6 Never)\<lparr>adding := True\<rparr>)\<lparr>last_number := last_number ((stored_generator 2 [] 0 6 Never)\<lparr>adding := True\<rparr>) + 1\<rparr>)
          [(1, stored_generator 1 [] 7 6 Never)]) = Inl IntegrityError \<and>
   fst (get_next_number t1 ((stored_generator 2 [] 0 6 Never)\<lparr>adding := True\<rparr>) [(1, stored_generator 1 [] 7 6 Never)])
     = Inl IntegrityError \<and>
   snd (snd (get_next_number t1 ((stored_generator 2 [] 0 6 Never)\<lparr>adding := True\<rparr>) [(1, stored_generator 1 [] 7 6 Never)]))
     = [(1, stored_generator 1 [] 7 6 Never)] \<and>
   last_number (stored_generator 1 [] 7 6 Never) = 7"
proof -
  have h: "fst (SequenceGenerator_save t1
          (((stored_generator 2 [] 0 6 Never)\<lparr>adding := True\<rparr>)\<lparr>last_number := last_number ((stored_generator 2 [] 0 6 Never)\<lparr>adding := True\<rparr>) + 1\<rparr>)
          [(1, stored_generator 1 [] 7 6 Never)]) = Inl IntegrityError"
    by code_simp
  have l: "last_number (stored_generator 1 [] 7 6 Never) = 7"
    by (simp add: stored_generator_def)
  from get_next_number_failed_save [OF h] h l show ?thesis by simp
qed

text \<open>
  The object in the caller's hands is another matter: the method increments it before
  it saves, so after a failed call the object holds the incremented number, which no
  row of the table has received.
\<close>

lemma get_next_number_failed_object:
  assumes "get_next_number now self tbl = (Inl e, self', tbl')"
  shows "last_number self' = last_number self + 1"
  by (rule get_next_number_fields(1) [OF assms])

subsection \<open>Allocation by kind\<close>

text \<open>
  C6. When no row of the table has the kind, \<open>allocate\<close> fails with \<^verbatim>\<open>NotFoundError\<close>
  and leaves the table as it is; and it returns a number only when some row has the
  kind.
\<close>

theorem allocate_unknown_kind:
  "((\<forall>r \<in> snd ` set tbl. sequence_type r \<noteq> kind) \<longrightarrow>
      allocate now kind tbl = (Inl NotFoundError, tbl)) \<and>
   (fst (allocate now kind tbl) = Inr s \<longrightarrow> (\<exists>r \<in> snd ` set tbl. sequence_type r = kind))"
proof (cases "find (\<lambda>(k, r). sequence_type r = kind) tbl")
  case None
  then show ?thesis
    by (simp add: allocate_def)
next
  case (Some a)
  then have "find (\<lambda>(k, r). sequence_type r = kind) tbl \<noteq> None"
    by simp
  then obtain x where x: "x \<in> set tbl" "sequence_type (snd x) = kind"
    unfolding find_None_iff by (auto simp: split_def)
  then have "snd x \<in> snd ` set tbl"
    by simp
  with x(2) have ex: "\<exists>r \<in> snd ` set tbl. sequence_type r = kind"
    by (intro bexI [of _ "snd x"])
  then show ?thesis by blast
qed

text \<open>
  A table with the generator of student numbers only: there is no invoice number to
  allocate, and the first student number is allocated.
\<close>

theorem allocate_unknown_kind_witness:
  "INVOICE \<notin> sequence_type ` snd ` set [(1 :: uuid, stored_generator 1 [] 0 6 Never)] \<and>
   allocate t1 INVOICE [(1, stored_generator 1 [] 0 6 Never)]
     = (Inl NotFoundError, [(1, stored_generator 1 [] 0 6 Never)]) \<and>
   fst (allocate t1 STUDENT_ID [(1, stored_generator 1 [] 0 6 Never)]) = Inr ''000001'' \<and>
   (\<exists>r \<in> snd ` set [(1 :: uuid, stored_generator 1 [] 0 6 Never)]. sequence_type r = STUDENT_ID)"
proof -
  have a: "\<forall>r \<in> snd ` set [(1 :: uuid, stored_generator 1 [] 0 6 Never)]. sequence_type r \<noteq> INVOICE"
    by (simp add: stored_generator_def)
  have b: "fst (allocate t1 STUDENT_ID [(1, stored_generator 1 [] 0 6 Never)]) = Inr ''000001''"
    by code_simp
  have c: "allocate t1 INVOICE [(1, stored_generator 1 [] 0 6 Never)]
     = (Inl NotFoundError, [(1, stored_generator 1 [] 0 6 Never)])"
    by (rule mp [OF conjunct1 [OF allocate_unknown_kind [of "[(1, stored_generator 1 [] 0 6 Never)]" INVOICE t1]] a])
  have d: "\<exists>r \<in> snd ` set [(1 :: uuid, stored_generator 1 [] 0 6 Never)]. sequence_type r = STUDENT_ID"
    by (rule mp [OF conjunct2 [OF allocate_unknown_kind [of "[(1, stored_generator 1 [] 0 6 Never)]" STUDENT_ID t1 "''000001''"]] b])
  have e: "INVOICE \<notin> sequence_type ` snd ` set [(1 :: uuid, stored_generator 1 [] 0 6 Never)]"
    by (simp add: stored_generator_def)
  show ?thesis
    by (intro conjI e b c d)
qed

subsection \<open>Reading a generator\<close>

text \<open>
  C7. Reading the last number of a generator, as the attribute or through
  \<^verbatim>\<open>__str__\<close>, returns the last number and leaves the object and the table as they
  are, every field of them; so the next call of \<^verbatim>\<open>get_next_number\<close> does what it would
  have done without the reading.
\<close>

theorem read_last_number_changes_nothing:
  "read_last_number self tbl = (Inr (last_number self), self, tbl) \<and>
   snd (SequenceGenerator_str self tbl) = (self, tbl) \<and>
   get_next_number now (fst (snd (read_last_number self tbl))) (snd (snd (read_last_number self tbl)))
     = get_next_number now self tbl"
  by (simp add: read_last_number_def SequenceGenerator_str_def)

subsection \<open>Soft deletion\<close>

lemma AcademicSession_save_object:
  assumes "AcademicSession_save now self tbl = (r, self', tbl')"
  shows "self' = self\<lparr>adding := adding self', created_at := created_at self',
           updated_at := updated_at self', status_changed_at := status_changed_at self'\<rparr>"
  by (rule StatusModel_save_object [OF assms [unfolded AcademicSession_save_def Let_def]])

lemma StatusModel_save_keys:
  assumes "StatusModel_save c now self tbl = (r, self', tbl')"
  shows "fst ` set tbl \<subseteq> fst ` set tbl'"
proof (cases r)
  case (Inl e)
  with assms show ?thesis by (auto dest: StatusModel_save_Inl)
next
  case (Inr u)
  with assms have "tbl' = AList.update (pk self) self' tbl"
    by (auto dest: StatusModel_save_Inr)
  then show ?thesis by (auto simp: dom_update)
qed

lemma StatusModel_save_stored:
  assumes "StatusModel_save c now self tbl = (Inr u, self', tbl')"
  shows "objects_get tbl' (pk self) = Inr self'"
  using StatusModel_save_Inr [OF assms] by (simp add: objects_get_def update_conv')

lemma objects_filter_update_keys:
  "fst ` set (objects_filter_update P f tbl) = fst ` set tbl"
proof -
  have "map fst (objects_filter_update P f tbl) = map fst tbl"
    by (induction tbl) (auto simp: objects_filter_update_def)
  then have "set (map fst (objects_filter_update P f tbl)) = set (map fst tbl)"
    by (rule arg_cong)
  then show ?thesis
    by (simp only: set_map)
qed

lemma AcademicSession_save_keys:
  assumes "AcademicSession_save now self tbl = (r, self', tbl')"
  shows "fst ` set tbl \<subseteq> fst ` set tbl'"
proof -
  let ?tbl1 = "if is_current self
               then objects_filter_update is_current (\<lambda>r. r\<lparr>is_current := False\<rparr>) tbl else tbl"
  have "fst ` set ?tbl1 = fst ` set tbl"
    by (simp add: objects_filter_update_keys)
  moreover have "fst ` set ?tbl1 \<subseteq> fst ` set tbl'"
    by (rule StatusModel_save_keys [OF assms [unfolded AcademicSession_save_def Let_def]])
  ultimately show ?thesis by simp
qed

lemma AcademicSession_save_stored:
  assumes "AcademicSession_save now self tbl = (Inr u, self', tbl')"
  shows "objects_get tbl' (pk self) = Inr self'"
  by (rule StatusModel_save_stored [OF assms [unfolded AcademicSession_save_def Let_def]])

text \<open>What delete and restore need of the save they call.\<close>

lemma SoftDeleteModel_delete_with:
  assumes obj: "\<And>now x tbl r x' tbl'. save now x tbl = (r, x', tbl') \<Longrightarrow>
             is_deleted x' = is_deleted x \<and> deleted_at x' = deleted_at x \<and> pk x' = pk x"
    and stored: "\<And>now x tbl u x' tbl'. save now x tbl = (Inr u, x', tbl') \<Longrightarrow>
             objects_get tbl' (pk x) = Inr x'"
    and keys: "\<And>now x tbl r x' tbl'. save now x tbl = (r, x', tbl') \<Longrightarrow>
             fst ` set tbl \<subseteq> fst ` set tbl'"
    and d: "SoftDeleteModel_delete save now self tbl = (r, self', tbl')"
  shows "is_deleted self' \<and> deleted_at self' = Some now \<and> pk self' = pk self \<and>
         (r = Inr () \<longrightarrow> objects_get tbl' (pk self) = Inr self') \<and>
         fst ` set tbl \<subseteq> fst ` set tbl'"
proof -
  from d have s: "save now (self\<lparr>is_deleted := True, deleted_at := Some now\<rparr>) tbl = (r, self', tbl')"
    by (simp add: SoftDeleteModel_delete_def)
  from obj [OF s] have "is_deleted self' \<and> deleted_at self' = Some now \<and> pk self' = pk self"
    by simp
  moreover have "objects_get tbl' (pk self) = Inr self'" if "r = Inr ()"
    using stored [of now "self\<lparr>is_deleted := True, deleted_at := Some now\<rparr>" tbl "()" self' tbl'] s that
    by simp
  moreover note keys [OF s]
  ultimately show ?thesis by blast
qed

lemma SoftDeleteModel_restore_with:
  assumes obj: "\<And>now x tbl r x' tbl'. save now x tbl = (r, x', tbl') \<Longrightarrow>
             is_deleted x' = is_deleted x \<and> deleted_at x' = deleted_at x \<and> pk x' = pk x"
    and stored: "\<And>now x tbl u x' tbl'. save now x tbl = (Inr u, x', tbl') \<Longrightarrow>
             objects_get tbl' (pk x) = Inr x'"
    and keys: "\<And>now x tbl r x' tbl'. save now x tbl = (r, x', tbl') \<Longrightarrow>
             fst ` set tbl \<subseteq> fst ` set tbl'"
    and d: "SoftDeleteModel_restore save now self tbl = (r, self', tbl')"
  shows "\<not> is_deleted self' \<and> deleted_at self' = None \<and> pk self' = pk self \<and>
         (r = Inr () \<longrightarrow> objects_get tbl' (pk self) = Inr self') \<and>
         fst ` set tbl \<subseteq> fst ` set tbl'"
proof -
  from d have s: "save now (self\<lparr>is_deleted := False, deleted_at := None\<rparr>) tbl = (r, self', tbl')"
    by (simp add: SoftDeleteModel_restore_def)
  from obj [OF s] have "\<not> is_deleted self' \<and> deleted_at self' = None \<and> pk self' = pk self"
    by simp
  moreover have "objects_get tbl' (pk self) = Inr self'" if "r = Inr ()"
    using stored [of now "self\<lparr>is_deleted := False, deleted_at := None\<rparr>" tbl "()" self' tbl'] s that
    by simp
  moreover note keys [OF s]
  ultimately show ?thesis by blast
qed

lemma StatusModel_save_deletion_fields:
  assumes "StatusModel_save c now x tbl = (r, x', tbl')"
  shows "is_deleted x' = is_deleted x \<and> deleted_at x' = deleted_at x \<and> pk x' = pk x"
  by (subst StatusModel_save_object [OF assms], simp)+

lemma AcademicSession_save_deletion_fields:
  assumes "AcademicSession_save now x tbl = (r, x', tbl')"
  shows "is_deleted x' = is_deleted x \<and> deleted_at x' = deleted_at x \<and> pk x' = pk x"
  by (subst AcademicSession_save_object [OF assms], simp)+

text \<open>
  C9. \<^verbatim>\<open>delete\<close> leaves the object deleted, with the current time as the time of
  deletion; \<^verbatim>\<open>restore\<close> leaves an object, whatever it was, not deleted and without a
  time of deletion, which are the values of an object that was never deleted: so does
  in particular a \<^verbatim>\<open>restore\<close> of the object that a \<^verbatim>\<open>delete\<close> left. When the save
  succeeds, the row stored under the key is the object as the call left it. Neither
  call removes a row: every key of the table is a key of the table afterwards. This
  holds with the save that the models inherit and with the save of academic sessions.
\<close>

theorem soft_delete_restore:
  assumes "SoftDeleteModel_delete (StatusModel_save c) now self tbl = (r1, self1, tbl1)"
    and "SoftDeleteModel_restore (StatusModel_save c) now' obj otbl = (r2, obj2, otbl2)"
    and "SoftDeleteModel_delete AcademicSession_save now session stbl = (q1, session1, stbl1)"
    and "SoftDeleteModel_restore AcademicSession_save now' sobj sotbl = (q2, sobj2, sotbl2)"
  shows "(is_deleted self1 \<and> deleted_at self1 = Some now \<and> pk self1 = pk self \<and>
          (r1 = Inr () \<longrightarrow> objects_get tbl1 (pk self) = Inr self1) \<and>
          fst ` set tbl \<subseteq> fst ` set tbl1) \<and>
         (\<not> is_deleted obj2 \<and> deleted_at obj2 = None \<and> pk obj2 = pk obj \<and>
          (r2 = Inr () \<longrightarrow> objects_get otbl2 (pk obj) = Inr obj2) \<and>
          fst ` set otbl \<subseteq> fst ` set otbl2) \<and>
         (is_deleted session1 \<and> deleted_at session1 = Some now \<and> pk session1 = pk session \<and>
          (q1 = Inr () \<longrightarrow> objects_get stbl1 (pk session) = Inr session1) \<and>
          fst ` set stbl \<subseteq> fst ` set stbl1) \<and>
         (\<not> is_deleted sobj2 \<and> deleted_at sobj2 = None \<and> pk sobj2 = pk sobj \<and>
          (q2 = Inr () \<longrightarrow> objects_get sotbl2 (pk sobj) = Inr sobj2) \<and>
          fst ` set sotbl \<subseteq> fst ` set sotbl2)"
proof -
  note a = SoftDeleteModel_delete_with [of "StatusModel_save c", OF
      StatusModel_save_deletion_fields StatusModel_save_stored StatusModel_save_keys assms(1)]
  note b = SoftDeleteModel_restore_with [of "StatusModel_save c", OF
      StatusModel_save_deletion_fields StatusModel_save_stored StatusModel_save_keys assms(2)]
  note c = SoftDeleteModel_delete_with [of AcademicSession_save, OF
      AcademicSession_save_deletion_fields AcademicSession_save_stored AcademicSession_save_keys assms(3)]
  note d = SoftDeleteModel_restore_with [of AcademicSession_save, OF
      AcademicSession_save_deletion_fields AcademicSession_save_stored AcademicSession_save_keys assms(4)]
  show ?thesis
    by (intro conjI a b c d)
qed

text \<open>
  A stored notification and a stored session are deleted and then restored; all four
  saves succeed.
\<close>

theorem soft_delete_restore_witness:
  "SoftDeleteModel_delete (StatusModel_save Notification_constraints) t1 (stored_notification 5)
      [(5, stored_notification 5)]
     = (Inr (), (stored_notification 5)\<lparr>updated_at := Some t1, is_deleted := True, deleted_at := Some t1\<rparr>,
        [(5, (stored_notification 5)\<lparr>updated_at := Some t1, is_deleted := True, deleted_at := Some t1\<rparr>)]) \<and>
   SoftDeleteModel_restore (StatusModel_save Notification_constraints) t2
      ((stored_notification 5)\<lparr>updated_at := Some t1, is_deleted := True, deleted_at := Some t1\<rparr>)
      [(5, (stored_notification 5)\<lparr>updated_at := Some t1, is_deleted := True, deleted_at := Some t1\<rparr>)]
     = (Inr (), (stored_notification 5)\<lparr>updated_at := Some t2\<rparr>,
        [(5, (stored_notification 5)\<lparr>updated_at := Some t2\<rparr>)]) \<and>
   SoftDeleteModel_delete AcademicSession_save t1 (stored_session 1 True) [(1, stored_session 1 True)]
     = (Inr (), (stored_session 1 True)\<lparr>updated_at := Some t1, is_deleted := True, deleted_at := Some t1\<rparr>,
        [(1, (stored_session 1 True)\<lparr>updated_at := Some t1, is_deleted := True, deleted_at := Some t1\<rparr>)]) \<and>
   SoftDeleteModel_restore AcademicSession_save t2
      ((stored_session 1 True)\<lparr>updated_at := Some t1, is_deleted := True, deleted_at := Some t1\<rparr>)
      [(1, (stored_session 1 True)\<lparr>updated_at := Some t1, is_deleted := True, deleted_at := Some t1\<rparr>)]
     = (Inr (), (stored_session 1 True)\<lparr>updated_at := Some t2\<rparr>,
        [(1, (stored_session 1 True)\<lparr>updated_at := Some t2\<rparr>)]) \<and>
   \<not> is_deleted ((stored_notification 5)\<lparr>updated_at := Some t2\<rparr>) \<and>
   deleted_at ((stored_notification 5)\<lparr>updated_at := Some t2\<rparr>) = None \<and>
   \<not> is_deleted ((stored_session 1 True)\<lparr>updated_at := Some t2\<rparr>) \<and>
   deleted_at ((stored_session 1 True)\<lparr>updated_at := Some t2\<rparr>) = None"
proof -
  have d1: "SoftDeleteModel_delete (StatusModel_save Notification_constraints) t1 (stored_notification 5)
      [(5, stored_notification 5)]
     = (Inr (), (stored_notification 5)\<lparr>updated_at := Some t1, is_deleted := True, deleted_at := Some t1\<rparr>,
        [(5, (stored_notification 5)\<lparr>updated_at := Some t1, is_deleted := True, deleted_at := Some t1\<rparr>)])"
    by code_simp
  have r1: "SoftDeleteModel_restore (StatusModel_save Notification_constraints) t2
      ((stored_notification 5)\<lparr>updated_at := Some t1, is_deleted := True, deleted_at := Some t1\<rparr>)
      [(5, (stored_notification 5)\<lparr>updated_at := Some t1, is_deleted := True, deleted_at := Some t1\<rparr>)]
     = (Inr (), (stored_notification 5)\<lparr>updated_at := Some t2\<rparr>,
        [(5, (stored_notification 5)\<lparr>updated_at := Some t2\<rparr>)])"
    by code_simp
  have d2: "SoftDeleteModel_delete AcademicSession_save t1 (stored_session 1 True) [(1, stored_session 1 True)]
     = (Inr (), (stored_session 1 True)\<lparr>updated_at := Some t1, is_deleted := True, deleted_at := Some t1\<rparr>,
        [(1, (stored_session 1 True)\<lparr>updated_at := Some t1, is_deleted := True, deleted_at := Some t1\<rparr>)])"
    by code_simp
  have r2: "SoftDeleteModel_restore AcademicSession_save t2
      ((stored_session 1 True)\<lparr>updated_at := Some t1, is_deleted := True, deleted_at := Some t1\<rparr>)
      [(1, (stored_session 1 True)\<lparr>updated_at := Some t1, is_deleted := True, deleted_at := Some t1\<rparr>)]
     = (Inr (), (stored_session 1 True)\<lparr>updated_at := Some t2\<rparr>,
        [(1, (stored_session 1 True)\<lparr>updated_at := Some t2\<rparr>)])"
    by code_simp
  note c = soft_delete_restore [OF d1 r1 d2 r2]
  from c have "\<not> is_deleted ((stored_notification 5)\<lparr>updated_at := Some t2\<rparr>)"
    "deleted_at ((stored_notification 5)\<lparr>updated_at := Some t2\<rparr>) = None"
    "\<not> is_deleted ((stored_session 1 True)\<lparr>updated_at := Some t2\<rparr>)"
    "deleted_at ((stored_session 1 True)\<lparr>updated_at := Some t2\<rparr>) = None"
    by blast+
  with d1 r1 d2 r2 show ?thesis
    by (intro conjI)
qed

subsection \<open>Marking a notification as read\<close>

lemma mark_as_read_object:
  assumes "mark_as_read now self tbl = (r, self', tbl')"
  shows "self' = self\<lparr>is_read := True, read_at := Some now, adding := adding self',
           created_at := created_at self', updated_at := updated_at self',
           status_changed_at := status_changed_at self'\<rparr>"
  by (rule StatusModel_save_object [OF assms [unfolded mark_as_read_def Notification_save_def]])

lemma mark_as_read_stored_succeeds:
  assumes "\<not> adding self" and "map_of tbl (pk self) \<noteq> None"
  shows "fst (mark_as_read now self tbl) = Inr ()"
  using assms
  by (auto simp: mark_as_read_def Notification_save_def StatusModel_save_def Model_save_def
      objects_get_def Notification_constraints_def Let_def split: option.splits)

text \<open>
  C10. \<^verbatim>\<open>mark_as_read\<close> leaves the notification read, with the current time as the
  time of reading, and every other field the notification declares as it was: user,
  title, message, type, priority, action URL, related model and object, expiry. When
  the save succeeds the row stored under the key is the object as the call left it,
  and for a notification that is stored the save does succeed. (Of the inherited
  fields the save refreshes \<open>updated_at\<close>.)
\<close>

theorem mark_as_read_sets_read_only:
  assumes "mark_as_read now self tbl = (r, self', tbl')"
  shows "is_read self' \<and> read_at self' = Some now \<and>
         user self' = user self \<and> title self' = title self \<and> message self' = message self \<and>
         notification_type self' = notification_type self \<and> priority self' = priority self \<and>
         action_url self' = action_url self \<and> related_model self' = related_model self \<and>
         related_object_id self' = related_object_id self \<and> expires_at self' = expires_at self \<and>
         pk self' = pk self \<and>
         (r = Inr () \<longrightarrow> objects_get tbl' (pk self) = Inr self') \<and>
         (\<not> adding self \<and> map_of tbl (pk self) \<noteq> None \<longrightarrow> r = Inr ())"
proof -
  note obj = mark_as_read_object [OF assms]
  have fields: "is_read self' \<and> read_at self' = Some now \<and>
         user self' = user self \<and> title self' = title self \<and> message self' = message self \<and>
         notification_type self' = notification_type self \<and> priority self' = priority self \<and>
         action_url self' = action_url self \<and> related_model self' = related_model self \<and>
         related_object_id self' = related_object_id self \<and> expires_at self' = expires_at self \<and>
         pk self' = pk self"
    by (subst obj, simp)+
  have stored: "objects_get tbl' (pk self) = Inr self'" if "r = Inr ()"
  proof -
    from assms that have "StatusModel_save Notification_constraints now
        (self\<lparr>is_read := True, read_at := Some now\<rparr>) tbl = (Inr (), self', tbl')"
      by (simp add: mark_as_read_def Notification_save_def)
    from StatusModel_save_Inr [OF this] have "tbl' = AList.update (pk self) self' tbl"
      by simp
    then show ?thesis
      by (simp add: objects_get_def update_conv')
  qed
  have ok: "r = Inr ()" if "\<not> adding self \<and> map_of tbl (pk self) \<noteq> None"
    using mark_as_read_stored_succeeds [of self tbl now] that assms by simp
  from fields stored ok show ?thesis by blast
qed

text \<open>A stored, unread notification is marked as read.\<close>

theorem mark_as_read_sets_read_only_witness:
  "mark_as_read t1 (stored_notification 5) [(5, stored_notification 5)]
     = (Inr (), (stored_notification 5)\<lparr>updated_at := Some t1, is_read := True, read_at := Some t1\<rparr>,
        [(5, (stored_notification 5)\<lparr>updated_at := Some t1, is_read := True, read_at := Some t1\<rparr>)]) \<and>
   objects_get [(5, (stored_notification 5)\<lparr>updated_at := Some t1, is_read := True, read_at := Some t1\<rparr>)]
      (pk (stored_notification 5))
     = Inr ((stored_notification 5)\<lparr>updated_at := Some t1, is_read := True, read_at := Some t1\<rparr>) \<and>
   title ((stored_notification 5)\<lparr>updated_at := Some t1, is_read := True, read_at := Some t1\<rparr>)
     = title (stored_notification 5)"
proof -
  have run: "mark_as_read t1 (stored_notification 5) [(5, stored_notification 5)]
     = (Inr (), (stored_notification 5)\<lparr>updated_at := Some t1, is_read := True, read_at := Some t1\<rparr>,
        [(5, (stored_notification 5)\<lparr>updated_at := Some t1, is_read := True, read_at := Some t1\<rparr>)])"
    by code_simp
  note c = mark_as_read_sets_read_only [OF run]
  from c have "objects_get [(5, (stored_notification 5)\<lparr>updated_at := Some t1, is_read := True, read_at := Some t1\<rparr>)]
      (pk (stored_notification 5))
     = Inr ((stored_notification 5)\<lparr>updated_at := Some t1, is_read := True, read_at := Some t1\<rparr>)"
    by simp
  moreover from c have "title ((stored_notification 5)\<lparr>updated_at := Some t1, is_read := True, read_at := Some t1\<rparr>)
     = title (stored_notification 5)"
    by simp
  ultimately show ?thesis using run by simp
qed

subsection \<open>The current academic session\<close>

lemma current_sessions_cleared:
  "current_sessions (objects_filter_update is_current (\<lambda>r. r\<lparr>is_current := False\<rparr>) tbl) = []"
  by (induction tbl) (auto simp: current_sessions_def objects_filter_update_def split: if_splits)

lemma current_sessions_update_none:
  "current_sessions tbl = [] \<Longrightarrow>
   current_sessions (AList.update k r tbl) = (if is_current r then [k] else [])"
  by (induction tbl) (auto simp: current_sessions_def split: if_splits)

lemma current_sessions_update_le:
  "\<not> is_current r \<Longrightarrow>
   length (current_sessions (AList.update k r tbl)) \<le> length (current_sessions tbl)"
  by (induction tbl) (auto simp: current_sessions_def)

lemma AcademicSession_save_table:
  assumes "AcademicSession_save now self tbl = (r, self', tbl')"
  shows "tbl' = (if r = Inr () then AList.update (pk self) self' else (\<lambda>t. t))
           (if is_current self
            then objects_filter_update is_current (\<lambda>r. r\<lparr>is_current := False\<rparr>) tbl else tbl)"
proof (cases r)
  case (Inl e)
  with assms show ?thesis
    unfolding AcademicSession_save_def Let_def by (auto dest: StatusModel_save_Inl)
next
  case (Inr u)
  with assms show ?thesis
    unfolding AcademicSession_save_def Let_def by (auto dest: StatusModel_save_Inr)
qed

lemma AcademicSession_save_current:
  assumes "AcademicSession_save now self tbl = (Inr u, self', tbl')" and "is_current self"
  shows "current_sessions tbl' = [pk self]"
proof -
  have "is_current self'"
    by (subst AcademicSession_save_object [OF assms(1)]) (simp add: assms(2))
  with AcademicSession_save_table [OF assms(1)] assms(2) show ?thesis
    by (simp add: current_sessions_update_none current_sessions_cleared)
qed

lemma AcademicSession_save_at_most_one:
  assumes "AcademicSession_save now self tbl = (r, self', tbl')"
    and "length (current_sessions tbl) \<le> 1"
  shows "length (current_sessions tbl') \<le> 1"
proof (cases "is_current self")
  case True
  have "is_current self'"
    by (subst AcademicSession_save_object [OF assms(1)]) (simp add: True)
  with AcademicSession_save_table [OF assms(1)] True show ?thesis
    by (simp add: current_sessions_update_none current_sessions_cleared)
next
  case False
  have n: "\<not> is_current self'"
    by (subst AcademicSession_save_object [OF assms(1)]) (simp add: False)
  have "length (current_sessions (AList.update (pk self) self' tbl)) \<le> length (current_sessions tbl)"
    using n by (rule current_sessions_update_le)
  with AcademicSession_save_table [OF assms(1)] False assms(2) show ?thesis
    by (cases "r = Inr ()") simp_all
qed

lemma save_all_at_most_one:
  "length (current_sessions tbl) \<le> 1 \<Longrightarrow> length (current_sessions (save_all calls tbl)) \<le> 1"
proof (induction calls arbitrary: tbl)
  case Nil
  then show ?case by simp
next
  case (Cons call calls)
  obtain now self where call: "call = (now, self)" by (cases call)
  obtain r self' tbl' where s: "AcademicSession_save now self tbl = (r, self', tbl')"
    by (cases "AcademicSession_save now self tbl") auto
  from AcademicSession_save_at_most_one [OF s Cons.prems]
  have "length (current_sessions tbl') \<le> 1" .
  from Cons.IH [OF this] show ?case
    by (simp add: call s)
qed

text \<open>
  C8. A successful save of a session that is current leaves exactly that session
  current in the table: the flag of every other session has been cleared. A successful
  save of any session keeps a table with at most one current session as such; so a table
  built by saves alone never has more than one current session.
\<close>

theorem AcademicSession_save_single_current:
  "length (current_sessions (save_all calls [])) \<le> 1 \<and>
   (AcademicSession_save now self tbl = (Inr u, self', tbl') \<longrightarrow>
      (is_current self \<longrightarrow> current_sessions tbl' = [pk self]) \<and>
      (length (current_sessions tbl) \<le> 1 \<longrightarrow> length (current_sessions tbl') \<le> 1))"
proof -
  have "length (current_sessions (save_all calls [])) \<le> 1"
    by (rule save_all_at_most_one) (simp add: current_sessions_def)
  then show ?thesis
    using AcademicSession_save_current AcademicSession_save_at_most_one by blast
qed

text \<open>
  Session 1 is current; session 2 is saved as current. Afterwards session 2 alone is
  current.
\<close>

theorem AcademicSession_save_single_current_witness:
  "AcademicSession_save t1 (stored_session 2 True) [(1, stored_session 1 True), (2, stored_session 2 False)]
     = (Inr (), (stored_session 2 True)\<lparr>updated_at := Some t1\<rparr>,
        [(1, stored_session 1 False), (2, (stored_session 2 True)\<lparr>updated_at := Some t1\<rparr>)]) \<and>
   is_current (stored_session 2 True) \<and>
   length (current_sessions [(1, stored_session 1 True), (2, stored_session 2 False)]) \<le> 1 \<and>
   current_sessions [(1, stored_session 1 False), (2, (stored_session 2 True)\<lparr>updated_at := Some t1\<rparr>)]
     = [pk (stored_session 2 True)] \<and>
   length (current_sessions [(1, stored_session 1 False), (2, (stored_session 2 True)\<lparr>updated_at := Some t1\<rparr>)]) \<le> 1"
proof -
  have run: "AcademicSession_save t1 (stored_session 2 True) [(1, stored_session 1 True), (2, stored_session 2 False)]
     = (Inr (), (stored_session 2 True)\<lparr>updated_at := Some t1\<rparr>,
        [(1, stored_session 1 False), (2, (stored_session 2 True)\<lparr>updated_at := Some t1\<rparr>)])"
    by code_simp
  have cur: "is_current (stored_session 2 True)"
    by (simp add: stored_session_def)
  have one: "length (current_sessions [(1, stored_session 1 True), (2, stored_session 2 False)]) \<le> 1"
    by code_simp
  note c = mp [OF conjunct2 [OF AcademicSession_save_single_current [of "[]"]] run]
  from mp [OF conjunct1 [OF c] cur] mp [OF conjunct2 [OF c] one] run cur one
  show ?thesis by (intro conjI)
qed

end
